theory Spec2Isabelle
  imports Main "HOL-Library.Sublist"
begin

section \<open>Go strings and the library functions the program calls\<close>

text \<open>
  A Go string is a sequence of bytes, and so is a HOL \<open>string\<close>. The functions of
  package \<open>strings\<close> and \<open>bufio\<close> that the program calls are written out here
  on bytes.
\<close>

text \<open>\<open>strings.Contains(s, substr)\<close>: \<open>substr\<close> occurs in \<open>s\<close> as a contiguous block.\<close>

definition Contains :: "string \<Rightarrow> string \<Rightarrow> bool" where
  "Contains s substr = sublist substr s"

text \<open>\<open>strings.HasPrefix(s, p)\<close>.\<close>

definition HasPrefix :: "string \<Rightarrow> string \<Rightarrow> bool" where
  "HasPrefix s p = prefix p s"

text \<open>
  \<open>strings.Split(s, sep)\<close> for a separator of one byte (the program splits on
  a newline and on a comma): n separators give n + 1 pieces, and the empty string gives
  one empty piece.
\<close>

fun Split :: "string \<Rightarrow> char \<Rightarrow> string list" where
  "Split [] sep = [[]]"
| "Split (c # cs) sep =
     (if c = sep then [] # Split cs sep
      else (case Split cs sep of
              [] \<Rightarrow> [[c]]
            | p # ps \<Rightarrow> (c # p) # ps))"

text \<open>
  \<open>strings.TrimSpace\<close> removes leading and trailing Unicode white space. On the
  UTF-8 bytes of a Go string these are the six ASCII characters tab, line feed, vertical
  tab, form feed, carriage return and space, and the encodings of U+0085, U+00A0,
  U+1680, U+2000 to U+200A, U+2028, U+2029, U+202F, U+205F and U+3000.
\<close>

definition white_space :: "string list" where
  "white_space =
     [[CHR 0x09], [CHR 0x0A], [CHR 0x0B], [CHR 0x0C], [CHR 0x0D], [CHR 0x20],
      [CHR 0xC2, CHR 0x85], [CHR 0xC2, CHR 0xA0],
      [CHR 0xE1, CHR 0x9A, CHR 0x80],
      [CHR 0xE2, CHR 0x80, CHR 0x80], [CHR 0xE2, CHR 0x80, CHR 0x81],
      [CHR 0xE2, CHR 0x80, CHR 0x82], [CHR 0xE2, CHR 0x80, CHR 0x83],
      [CHR 0xE2, CHR 0x80, CHR 0x84], [CHR 0xE2, CHR 0x80, CHR 0x85],
      [CHR 0xE2, CHR 0x80, CHR 0x86], [CHR 0xE2, CHR 0x80, CHR 0x87],
      [CHR 0xE2, CHR 0x80, CHR 0x88], [CHR 0xE2, CHR 0x80, CHR 0x89],
      [CHR 0xE2, CHR 0x80, CHR 0x8A],
      [CHR 0xE2, CHR 0x80, CHR 0xA8], [CHR 0xE2, CHR 0x80, CHR 0xA9],
      [CHR 0xE2, CHR 0x80, CHR 0xAF], [CHR 0xE2, CHR 0x81, CHR 0x9F],
      [CHR 0xE3, CHR 0x80, CHR 0x80]]"

text \<open>The number of bytes of the white-space character a string starts with, 0 if none.\<close>

definition leading_space :: "string \<Rightarrow> nat" where
  "leading_space s =
     (case List.find (\<lambda>w. prefix w s) white_space of
        None \<Rightarrow> 0
      | Some w \<Rightarrow> length w)"

definition trailing_space :: "string \<Rightarrow> nat" where
  "trailing_space s =
     (case List.find (\<lambda>w. suffix w s) white_space of
        None \<Rightarrow> 0
      | Some w \<Rightarrow> length w)"

text \<open>
  The trimming loops. Each round removes one white-space character; the fuel is the
  length of the string, which no run can use up, since every round removes at least
  one byte.
\<close>

fun trim_left :: "nat \<Rightarrow> string \<Rightarrow> string" where
  "trim_left 0 s = s"
| "trim_left (Suc n) s =
     (if leading_space s = 0 then s else trim_left n (drop (leading_space s) s))"

fun trim_right :: "nat \<Rightarrow> string \<Rightarrow> string" where
  "trim_right 0 s = s"
| "trim_right (Suc n) s =
     (if trailing_space s = 0 then s
      else trim_right n (take (length s - trailing_space s) s))"

definition TrimSpace :: "string \<Rightarrow> string" where
  "TrimSpace s = (let t = trim_left (length s) s in trim_right (length t) t)"

text \<open>
  \<open>bufio.Reader.ReadString('\n')\<close> on the bytes still unread: the bytes up to and
  including the first line feed, or all of them when there is none (the program drops
  the error that reports the missing delimiter). The second component is what stays
  unread.
\<close>

abbreviation LF :: char where
  "LF \<equiv> CHR 0x0A"

fun ReadString :: "string \<Rightarrow> string \<times> string" where
  "ReadString [] = ([], [])"
| "ReadString (c # cs) =
     (if c = LF then ([c], cs)
      else (case ReadString cs of (l, r) \<Rightarrow> (c # l, r)))"


section \<open>The world the program runs in\<close>

text \<open>
  What the program does to its surroundings is recorded in order, one event per call:
  a write to standard output, a child process (its argument vector, its combined
  output, and the error \<open>CombinedOutput\<close> returned, if any), a table handed to the
  table writer (header and rows), a request to the cluster for its nodes or for its
  services, the start and the stop of the spinner, and the calls of the two inventory
  operations. The spinner's own output, written by a second
  goroutine, is not part of the trace.
\<close>

datatype event =
    Printed string
  | is_Ran: Ran (ran_argv: "string list") (ran_out: string) (ran_err: "string option")
  | Rendered "string list" "string list list"
  | NodesListed
  | ServicesListed
  | SpinnerStarted
  | SpinnerStopped
  | CreateCalled
  | RemoveCalled

text \<open>
  The state: the content of the file \<open>k8s.inventory\<close> (\<open>None\<close> when there is no
  such file), the bytes of standard input not read yet, and the trace.
\<close>

record world =
  inventory :: "string option"
  stdin :: string
  events :: "event list"

text \<open>A \<open>LoadBalancer\<close> service as far as the program reads it: \<open>Spec.Type\<close> and
  the addresses of \<open>Status.LoadBalancer.Ingress\<close>.\<close>

record service =
  svc_type :: string
  ingress :: "string list"

text \<open>
  What the surroundings answer. An error is the text that \<open>%v\<close> prints for it.
  \<^item> \<open>current_user\<close>: \<open>user.Current()\<close>, the user name and the home directory;
  \<^item> \<open>build_config\<close>, \<open>new_client\<close>: the error of \<open>BuildConfigFromFlags\<close> and of
    \<open>NewForConfig\<close>, if any;
  \<^item> \<open>list_nodes\<close>, \<open>list_services\<close>: the answers of the cluster (node names; services);
  \<^item> \<open>transport\<close>: the combined output and the error of a child process, which may
    depend on everything that happened before and on the inventory on disk;
  \<^item> \<open>create_error\<close>: the error of \<open>os.Create\<close>, if any;
  \<^item> \<open>write_error\<close>: for the i-th \<open>WriteString\<close> of an inventory creation, the number
    of bytes that still reach the file and the error, if that write fails;
  \<^item> \<open>remove_error\<close>: the error of \<open>os.Remove\<close> on an existing file, if any.
\<close>

record env =
  current_user :: "string + string \<times> string"
  build_config :: "string option"
  new_client :: "string option"
  list_nodes :: "string + string list"
  list_services :: "string + service list"
  transport :: "world \<Rightarrow> string list \<Rightarrow> string \<times> string option"
  create_error :: "string option"
  write_error :: "nat \<Rightarrow> (nat \<times> string) option"
  remove_error :: "string option"

definition emit :: "event \<Rightarrow> world \<Rightarrow> world" where
  "emit e w = w\<lparr>events := events w @ [e]\<rparr>"

text \<open>\<open>exec.Command(argv...).CombinedOutput()\<close>.\<close>

definition CombinedOutput :: "env \<Rightarrow> string list \<Rightarrow> world
    \<Rightarrow> (string \<times> string option) \<times> world" where
  "CombinedOutput E argv w =
     (case transport E w argv of
        (out, err) \<Rightarrow> ((out, err), emit (Ran argv out err) w))"

section \<open>The probe orchestrator\<close>

text \<open>The argument vector of one probe:
  \<open>ansible -i k8s.inventory <node> -u <user> -m shell -a "arping -q -I <if> <ip> -c 1"\<close>.\<close>

definition probe_argv :: "string \<Rightarrow> string \<Rightarrow> string \<Rightarrow> string \<Rightarrow> string list" where
  "probe_argv node arpInterface ip ansibleUsername =
     [''ansible'', ''-i'', ''k8s.inventory'', node, ''-u'', ansibleUsername,
      ''-m'', ''shell'', ''-a'',
      ''arping -q -I '' @ arpInterface @ '' '' @ ip @ '' -c 1'']"

text \<open>The body of the inner loop: one probe, and the pair appended to \<open>hostingNodes\<close>
  when the command returned an error and its output contains \<open>FAILED\<close>.\<close>

definition probe :: "env \<Rightarrow> string \<Rightarrow> string \<Rightarrow> string \<Rightarrow> string
    \<Rightarrow> world \<times> string list list \<Rightarrow> world \<times> string list list" where
  "probe E node arpInterface ansibleUsername ip st =
     (case st of (w, hostingNodes) \<Rightarrow>
        (case CombinedOutput E (probe_argv node arpInterface ip ansibleUsername) w of
           ((out, err), w') \<Rightarrow>
             if err \<noteq> None then
               (if Contains out ''FAILED'' then (w', hostingNodes @ [[node, ip]])
                else (w', hostingNodes))
             else (w', hostingNodes)))"

primrec probe_ips :: "env \<Rightarrow> string \<Rightarrow> string \<Rightarrow> string \<Rightarrow> string list
    \<Rightarrow> world \<times> string list list \<Rightarrow> world \<times> string list list" where
  "probe_ips E node arpInterface ansibleUsername [] st = st"
| "probe_ips E node arpInterface ansibleUsername (ip # ips) st =
     probe_ips E node arpInterface ansibleUsername ips
       (probe E node arpInterface ansibleUsername ip st)"

primrec probe_nodes :: "env \<Rightarrow> string list \<Rightarrow> string \<Rightarrow> string list \<Rightarrow> string
    \<Rightarrow> world \<times> string list list \<Rightarrow> world \<times> string list list" where
  "probe_nodes E [] arpInterface lbIPs ansibleUsername st = st"
| "probe_nodes E (node # nodes) arpInterface lbIPs ansibleUsername st =
     probe_nodes E nodes arpInterface lbIPs ansibleUsername
       (probe_ips E node arpInterface ansibleUsername lbIPs st)"

text \<open>\<open>runARPCommandOnAllNodes\<close>: the two loops from an empty \<open>hostingNodes\<close>, then
  the heading and the table, one row per entry of \<open>hostingNodes\<close>.\<close>

definition runARPCommandOnAllNodes :: "env \<Rightarrow> string list \<Rightarrow> string \<Rightarrow> string list
    \<Rightarrow> string \<Rightarrow> world \<Rightarrow> world" where
  "runARPCommandOnAllNodes E nodes arpInterface lbIPs ansibleUsername w =
     (case probe_nodes E nodes arpInterface lbIPs ansibleUsername (w, []) of
        (w1, hostingNodes) \<Rightarrow>
          emit (Rendered [''Node Name'', ''LoadBalancer IP''] hostingNodes)
            (emit (Printed (LF # ''Here is your result:'' @ [LF])) w1))"


section \<open>The inventory file\<close>

text \<open>
  One \<open>file.WriteString(s)\<close>, the i-th of a creation: the bytes are appended to the
  file; when the write fails, only the bytes the surroundings let through are, and the
  error is returned.
\<close>

definition content :: "string option \<Rightarrow> string" where
  "content f = (case f of None \<Rightarrow> [] | Some c \<Rightarrow> c)"

definition WriteString :: "env \<Rightarrow> nat \<Rightarrow> string \<Rightarrow> world \<Rightarrow> string option \<times> world" where
  "WriteString E i s w =
     (case write_error E i of
        None \<Rightarrow> (None, w\<lparr>inventory := Some (content (inventory w) @ s)\<rparr>)
      | Some (k, err) \<Rightarrow>
          (Some err, w\<lparr>inventory := Some (content (inventory w) @ take k s)\<rparr>))"

text \<open>The loop of \<open>createInventoryFile\<close>: one line per node, stopping at the first
  write that fails. \<open>i\<close> counts the writes.\<close>

primrec write_nodes :: "env \<Rightarrow> nat \<Rightarrow> string list \<Rightarrow> string \<Rightarrow> world
    \<Rightarrow> string option \<times> world" where
  "write_nodes E i [] ansibleUsername w = (None, w)"
| "write_nodes E i (node # nodes) ansibleUsername w =
     (case WriteString E i (node @ '' ansible_user='' @ ansibleUsername @ [LF]) w of
        (Some err, w') \<Rightarrow> (Some err, w')
      | (None, w') \<Rightarrow> write_nodes E (Suc i) nodes ansibleUsername w')"

text \<open>\<open>createInventoryFile\<close>: \<open>os.Create\<close> truncates the file or creates it empty,
  then the header and the node lines are written. The result is the error, if any.\<close>

definition createInventoryFile :: "env \<Rightarrow> string list \<Rightarrow> string \<Rightarrow> world
    \<Rightarrow> string option \<times> world" where
  "createInventoryFile E nodes ansibleUsername w0 =
     (let w = emit CreateCalled w0 in
      case create_error E of
        Some err \<Rightarrow> (Some err, w)
      | None \<Rightarrow>
          (case WriteString E 0 (''[k8s]'' @ [LF]) (w\<lparr>inventory := Some []\<rparr>) of
             (Some err, w') \<Rightarrow> (Some err, w')
           | (None, w') \<Rightarrow> write_nodes E 1 nodes ansibleUsername w'))"

text \<open>\<open>removeInventoryFile\<close>: \<open>os.Stat\<close> succeeds when the file exists; only then
  \<open>os.Remove\<close> is called, and its error is returned.\<close>

definition removeInventoryFile :: "env \<Rightarrow> world \<Rightarrow> string option \<times> world" where
  "removeInventoryFile E w0 =
     (let w = emit RemoveCalled w0 in
      if inventory w \<noteq> None then
        (case remove_error E of
           Some err \<Rightarrow> (Some err, w)
         | None \<Rightarrow> (None, w\<lparr>inventory := None\<rparr>))
      else (None, w))"

section \<open>Nodes and candidate addresses\<close>

text \<open>ANSI colour codes of \<open>get_loadBalancerIP.go\<close>.\<close>

abbreviation ESC :: char where
  "ESC \<equiv> CHR 0x1B"

definition ColorReset :: string where "ColorReset = ESC # ''[0m''"
definition ColorRed :: string where "ColorRed = ESC # ''[31m''"
definition ColorGreen :: string where "ColorGreen = ESC # ''[32m''"
definition ColorBlue :: string where "ColorBlue = ESC # ''[34m''"
definition ColorPurple :: string where "ColorPurple = ESC # ''[35m''"
definition ColorCyan :: string where "ColorCyan = ESC # ''[36m''"

text \<open>The repository holds two programs: \<open>get_loadBalancerIP.go\<close>, which colours its
  messages, and a second one without colours, which differs in the order of the steps
  of \<open>main\<close> and in how it finds the interface.\<close>

datatype variant = Coloured | Plain

text \<open>The inner loop of \<open>getLoadBalancerIPsStartingWithSeven\<close>, over the ingress
  entries of one service.\<close>

primrec collect_ingress :: "string list \<Rightarrow> string list \<Rightarrow> string list" where
  "collect_ingress [] lbIPs = lbIPs"
| "collect_ingress (ip # ips) lbIPs =
     collect_ingress ips (if HasPrefix ip ''7'' then lbIPs @ [ip] else lbIPs)"

text \<open>The outer loop, over the services.\<close>

primrec collect_services :: "service list \<Rightarrow> string list \<Rightarrow> string list" where
  "collect_services [] lbIPs = lbIPs"
| "collect_services (svc # svcs) lbIPs =
     collect_services svcs
       (if svc_type svc = ''LoadBalancer'' then collect_ingress (ingress svc) lbIPs
        else lbIPs)"

definition getLoadBalancerIPsStartingWithSeven :: "variant \<Rightarrow> env \<Rightarrow> world
    \<Rightarrow> string list \<times> world" where
  "getLoadBalancerIPsStartingWithSeven v E w =
     (case list_services E of
        Inl err \<Rightarrow>
          ([], emit (Printed (case v of
                        Coloured \<Rightarrow> ColorRed @ ''Error fetching services: '' @ err
                                      @ ColorReset @ [LF]
                      | Plain \<Rightarrow> ''Error fetching services: '' @ err @ [LF]))
                 (emit ServicesListed w))
      | Inr items \<Rightarrow> (collect_services items [], emit ServicesListed w))"

definition getSpecificLoadBalancerIPs :: "world \<Rightarrow> string list \<times> world" where
  "getSpecificLoadBalancerIPs w0 =
     (let w = emit (Printed (LF # ''Enter LB IP(s) separated by comma: '')) w0 in
      case ReadString (stdin w) of
        (lbIPsStr, rest) \<Rightarrow> (Split (TrimSpace lbIPsStr) CHR '','', w\<lparr>stdin := rest\<rparr>))"

text \<open>\<open>getAllNodes\<close>: one request to the cluster; the names of the listed nodes, in
  the order of the answer, or the error of the request.\<close>

primrec collect_names :: "string list \<Rightarrow> string list \<Rightarrow> string list" where
  "collect_names [] nodes = nodes"
| "collect_names (name # names) nodes = collect_names names (nodes @ [name])"

definition getAllNodes :: "env \<Rightarrow> world \<Rightarrow> (string + string list) \<times> world" where
  "getAllNodes E w =
     (case list_nodes E of
        Inl err \<Rightarrow> (Inl err, emit NodesListed w)
      | Inr names \<Rightarrow> (Inr (collect_names names []), emit NodesListed w))"


section \<open>Interface discovery\<close>

abbreviation BSL :: char where
  "BSL \<equiv> CHR 0x5C"

abbreviation SQ :: char where
  "SQ \<equiv> CHR 0x27"

text \<open>The discovery command of \<open>get_loadBalancerIP.go\<close>, run on the second host of
  the inventory group.\<close>

definition route_argv :: "string list" where
  "route_argv =
     [''ansible'', ''-i'', ''k8s.inventory'', ''k8s[1]'', ''-m'', ''shell'', ''-a'',
      ''ip route | awk '/7/ {print $3}' | head -2'']"

text \<open>The discovery command of the second program.\<close>

definition addr_argv :: "string list" where
  "addr_argv =
     [''ansible'', ''-i'', ''k8s.inventory'', ''k8s[1]'', ''-m'', ''shell'', ''-a'',
      ''ip addr show | grep -oP '^'' @ BSL # ''d+: '' @ BSL # ''K[^:]*' | ''
      @ ''xargs -I{} ip addr show {} | grep -oP '(?<=inet'' @ BSL # ''s)7''
      @ BSL # ''S+'' @ [SQ]]"

text \<open>\<open>getInterfaceNameStartingWithSeven\<close> of \<open>get_loadBalancerIP.go\<close>: the third
  line of the trimmed output of a routing-table command, trimmed; the empty string when
  the command fails or the output has fewer than three lines.\<close>

definition getInterfaceNameStartingWithSeven_coloured :: "env \<Rightarrow> world \<Rightarrow> string \<times> world" where
  "getInterfaceNameStartingWithSeven_coloured E w =
     (case CombinedOutput E route_argv w of
        ((out, Some err), w') \<Rightarrow>
          ([], emit (Printed (ColorRed @ ''Error executing Ansible command: '' @ err
                              @ ColorReset @ [LF])) w')
      | ((out, None), w') \<Rightarrow>
          (let lines = Split (TrimSpace out) LF in
           if length lines \<ge> 3 then (TrimSpace (lines ! 2), w') else ([], w')))"

text \<open>\<open>getInterfaceNameStartingWithSeven\<close> of the second program: the whole trimmed
  output of an address-listing command; the empty string when the command fails.\<close>

definition getInterfaceNameStartingWithSeven_plain :: "env \<Rightarrow> world \<Rightarrow> string \<times> world" where
  "getInterfaceNameStartingWithSeven_plain E w =
     (case CombinedOutput E addr_argv w of
        ((out, Some err), w') \<Rightarrow>
          ([], emit (Printed (''Error executing Ansible command: '' @ err @ [LF])) w')
      | ((out, None), w') \<Rightarrow> (TrimSpace out, w'))"

section \<open>The two main functions\<close>

definition stars :: string where
  "stars = replicate 43 CHR ''*''"

definition printWelcomeMessage :: "variant \<Rightarrow> string \<Rightarrow> world \<Rightarrow> world" where
  "printWelcomeMessage v username w =
     (let w1 = emit (Printed (LF # stars @ [LF])) w;
          w2 = emit (Printed (case v of
                       Coloured \<Rightarrow> ColorGreen @ ''*** Welcome, '' @ username @ ''! ***''
                                     @ ColorReset @ [LF]
                     | Plain \<Rightarrow> ''*** Welcome, '' @ username @ ''! ***'' @ [LF])) w1;
          w3 = emit (Printed (stars @ [LF])) w2
      in emit (Printed (case v of
                 Coloured \<Rightarrow> ColorCyan @ ''This tool helps you find the node name associated ''
                               @ ''with LoadBalancer IPs in your Kubernetes cluster.''
                               @ ColorReset @ [LF]
               | Plain \<Rightarrow> ESC # ''[3mThis tool helps you find the node name associated ''
                            @ ''with LoadBalancer IPs in your Kubernetes cluster.''
                            @ ESC # ''[0m'' @ [LF])) w3)"

text \<open>The function that \<open>loadingAnimation\<close> returns: it stops the spinner, waits for
  it, and clears its line.\<close>

definition stopSpinner :: "world \<Rightarrow> world" where
  "stopSpinner w =
     emit (Printed (CHR 0x0D # replicate 44 CHR '' '' @ [CHR 0x0D])) (emit SpinnerStopped w)"

text \<open>A prompt and the answer to it: one line of standard input, trimmed.\<close>

definition ask :: "string \<Rightarrow> world \<Rightarrow> string \<times> world" where
  "ask prompt w0 =
     (let w = emit (Printed prompt) w0 in
      case ReadString (stdin w) of
        (line, rest) \<Rightarrow> (TrimSpace line, w\<lparr>stdin := rest\<rparr>))"


text \<open>
  The end of \<open>main\<close> in \<open>get_loadBalancerIP.go\<close>, from the start of the spinner: the
  sweep, two lines about the interface, the removal of the inventory (an error of it is
  only printed), and the deferred stop of the spinner. The exit status is 0.
\<close>

definition sweep_coloured :: "env \<Rightarrow> string list \<Rightarrow> string \<Rightarrow> string \<Rightarrow> string list
    \<Rightarrow> world \<Rightarrow> nat \<times> world" where
  "sweep_coloured E nodes arpInterface ansibleUsername lbIPs w =
     (let w1 = emit SpinnerStarted w;
          w2 = runARPCommandOnAllNodes E nodes arpInterface lbIPs ansibleUsername w1;
          w3 = emit (Printed (LF # ''Interface Used to run ARP command: '' @ ColorGreen
                              @ arpInterface @ ColorReset @ [LF, LF, LF])) w2;
          w4 = emit (Printed (ColorPurple @ ''****'' @ ColorReset @ [LF, LF])) w3
      in case removeInventoryFile E w4 of
           (Some err, w5) \<Rightarrow>
             (0, stopSpinner (emit (Printed (ColorRed @ ''Error removing inventory file: ''
                                             @ err @ ColorReset @ [LF])) w5))
         | (None, w5) \<Rightarrow> (0, stopSpinner w5))"

text \<open>
  The part of \<open>main\<close> in \<open>get_loadBalancerIP.go\<close> that asks for the addresses: the
  question, the answer, and the sweep on the addresses of the chosen source; any answer
  but \<open>yes\<close> and \<open>no\<close> ends the run with status 1.
\<close>

definition menu_coloured :: "env \<Rightarrow> string list \<Rightarrow> string \<Rightarrow> string \<Rightarrow> world
    \<Rightarrow> nat \<times> world" where
  "menu_coloured E nodes arpInterface ansibleUsername w =
     (case ask (ColorBlue @ LF # ''Do you want to get all LoadBalancer IPs ? (yes/no): ''
                @ ColorReset) w of
        (option, w1) \<Rightarrow>
          if option = ''yes'' then
            (case getLoadBalancerIPsStartingWithSeven Coloured E w1 of
               (lbIPs, w2) \<Rightarrow> sweep_coloured E nodes arpInterface ansibleUsername lbIPs w2)
          else if option = ''no'' then
            (case getSpecificLoadBalancerIPs w1 of
               (lbIPs, w2) \<Rightarrow> sweep_coloured E nodes arpInterface ansibleUsername lbIPs w2)
          else
            (1, emit (Printed (ColorRed @ '' Invalid option. Please choose 'yes' or 'no'. ''
                               @ ColorReset @ [LF])) w1))"

text \<open>
  \<open>main\<close> of \<open>get_loadBalancerIP.go\<close>, up to the question for the addresses, where
  \<open>menu_coloured\<close> goes on. The result is the exit status and the final
  world; \<open>os.Exit(1)\<close> ends the run at once. The command line is taken as accepted by
  \<open>flag.Parse\<close>; the path of the kubeconfig file only reaches \<open>BuildConfigFromFlags\<close>,
  whose answer is \<open>build_config\<close>.
\<close>

definition main_coloured :: "env \<Rightarrow> world \<Rightarrow> nat \<times> world" where
  "main_coloured E w0 =
     (case current_user E of
        Inl err \<Rightarrow>
          (1, emit (Printed (ColorRed @ ''Error getting current user: '' @ err
                             @ ColorReset @ [LF])) w0)
      | Inr (username, homeDir) \<Rightarrow>
     (case build_config E of
        Some err \<Rightarrow>
          (1, emit (Printed (ColorRed @ ''Error loading kubeconfig: '' @ err
                             @ ColorReset @ [LF])) w0)
      | None \<Rightarrow>
     (case new_client E of
        Some err \<Rightarrow>
          (1, emit (Printed (ColorRed @ ''Error creating Kubernetes client: '' @ err
                             @ ColorReset @ [LF])) w0)
      | None \<Rightarrow>
     (case ask (ColorBlue @ LF # ''Enter the Ansible username to run ARP command ''
                @ ''(Ex: johndoe or johndoe-adm): '' @ ColorReset)
             (printWelcomeMessage Coloured username w0) of
        (ansibleUsername, w1) \<Rightarrow>
     (case getAllNodes E w1 of
        (Inl err, w2) \<Rightarrow>
          (1, emit (Printed (ColorRed @ ''Error fetching nodes: '' @ err
                             @ ColorReset @ [LF])) w2)
      | (Inr nodes, w2) \<Rightarrow>
     (case createInventoryFile E nodes ansibleUsername w2 of
        (Some err, w3) \<Rightarrow>
          (1, emit (Printed (ColorRed @ ''Error creating inventory file: '' @ err
                             @ ColorReset @ [LF])) w3)
      | (None, w3) \<Rightarrow>
     (case getInterfaceNameStartingWithSeven_coloured E w3 of
        (arpInterface, w4) \<Rightarrow>
          if arpInterface = [] then
            (1, emit (Printed (ColorRed @ '' Failed to retrieve network interface starting ''
                               @ ''with '7'. Please check your setup. '' @ ColorReset @ [LF])) w4)
          else menu_coloured E nodes arpInterface ansibleUsername w4)))))))"

text \<open>
  The end of \<open>main\<close> in the second program, once the candidate addresses are known:
  the nodes are listed and the inventory is written only here, then come the sweep, the
  removal of the inventory and the deferred stop of the spinner.
\<close>

definition sweep_plain :: "env \<Rightarrow> string \<Rightarrow> string \<Rightarrow> string list \<Rightarrow> world
    \<Rightarrow> nat \<times> world" where
  "sweep_plain E arpInterface ansibleUsername lbIPs w =
     (case getAllNodes E w of
        (Inl err, w1) \<Rightarrow> (1, emit (Printed (''Error fetching nodes: '' @ err @ [LF])) w1)
      | (Inr nodes, w1) \<Rightarrow>
     (case createInventoryFile E nodes ansibleUsername w1 of
        (Some err, w2) \<Rightarrow>
          (1, emit (Printed (''Error creating inventory file: '' @ err @ [LF])) w2)
      | (None, w2) \<Rightarrow>
     (let w3 = runARPCommandOnAllNodes E nodes arpInterface lbIPs ansibleUsername
                 (emit SpinnerStarted w2)
      in case removeInventoryFile E w3 of
           (Some err, w4) \<Rightarrow>
             (0, stopSpinner (emit (Printed (''Error removing inventory file: '' @ err
                                             @ [LF])) w4))
         | (None, w4) \<Rightarrow> (0, stopSpinner w4))))"

text \<open>The part of \<open>main\<close> in the second program that asks for the addresses.\<close>

definition menu_plain :: "env \<Rightarrow> string \<Rightarrow> string \<Rightarrow> world \<Rightarrow> nat \<times> world" where
  "menu_plain E arpInterface ansibleUsername w =
     (case ask (LF # ''Do you want to get all LoadBalancer IPs ? (yes/no): '') w of
        (option, w1) \<Rightarrow>
          if option = ''yes'' then
            (case getLoadBalancerIPsStartingWithSeven Plain E w1 of
               (lbIPs, w2) \<Rightarrow> sweep_plain E arpInterface ansibleUsername lbIPs w2)
          else if option = ''no'' then
            (case getSpecificLoadBalancerIPs w1 of
               (lbIPs, w2) \<Rightarrow> sweep_plain E arpInterface ansibleUsername lbIPs w2)
          else
            (1, emit (Printed (''Invalid option. Please choose 'yes' or 'no'.'' @ [LF]))
                  w1))"

text \<open>\<open>main\<close> of the second program, up to the question for the addresses.\<close>

definition main_plain :: "env \<Rightarrow> world \<Rightarrow> nat \<times> world" where
  "main_plain E w0 =
     (case current_user E of
        Inl err \<Rightarrow> (1, emit (Printed (''Error getting current user: '' @ err @ [LF])) w0)
      | Inr (username, homeDir) \<Rightarrow>
     (case build_config E of
        Some err \<Rightarrow> (1, emit (Printed (''Error loading kubeconfig: '' @ err @ [LF])) w0)
      | None \<Rightarrow>
     (case new_client E of
        Some err \<Rightarrow>
          (1, emit (Printed (''Error creating Kubernetes client: '' @ err @ [LF])) w0)
      | None \<Rightarrow>
     (case ask (LF # ''Enter the Ansible username to run ARP command ''
                @ ''(Ex: johndoe or johndoe-adm): '')
             (printWelcomeMessage Plain username w0) of
        (ansibleUsername, w1) \<Rightarrow>
     (case getInterfaceNameStartingWithSeven_plain E w1 of
        (arpInterface, w2) \<Rightarrow>
          if arpInterface = [] then
            (1, emit (Printed (''Failed to retrieve network interface starting with '7'. ''
                               @ ''Please check your setup.'' @ [LF])) w2)
          else menu_plain E arpInterface ansibleUsername w2)))))"


section \<open>Reading the trace\<close>

text \<open>
  The probes of a sweep, told a second time from the specification's words: the
  transport is asked once for each pair of a list, in the order of the list, and each
  question is put in the world that the answers before it have produced.
\<close>

primrec answers :: "env \<Rightarrow> string \<Rightarrow> string \<Rightarrow> (string \<times> string) list \<Rightarrow> world
    \<Rightarrow> event list" where
  "answers E arpInterface ansibleUsername [] w = []"
| "answers E arpInterface ansibleUsername (p # ps) w =
     (case transport E w (probe_argv (fst p) arpInterface (snd p) ansibleUsername) of
        (out, err) \<Rightarrow>
          Ran (probe_argv (fst p) arpInterface (snd p) ansibleUsername) out err
            # answers E arpInterface ansibleUsername ps
                (emit (Ran (probe_argv (fst p) arpInterface (snd p) ansibleUsername) out err) w))"

text \<open>The specification's Hosting outcome: the command failed and its output holds the
  marker.\<close>

fun hosting :: "event \<Rightarrow> bool" where
  "hosting (Ran a out err) = (err \<noteq> None \<and> sublist ''FAILED'' out)"
| "hosting _ = False"

text \<open>The rows of the pairs whose answer is Hosting, in the order of the pairs.\<close>

definition rows_of :: "(string \<times> string) list \<Rightarrow> event list \<Rightarrow> string list list" where
  "rows_of ps rs = map (\<lambda>(p, r). [fst p, snd p]) (filter (\<lambda>(p, r). hosting r) (zip ps rs))"

text \<open>The events of a run: what the trace holds beyond the trace it started from.\<close>

definition added :: "world \<Rightarrow> world \<Rightarrow> event list" where
  "added w w' = drop (length (events w)) (events w')"

section \<open>Sample surroundings\<close>

text \<open>Surroundings in which nothing fails: a cluster of two nodes and three services,
  commands that succeed without output, and a file system without errors.\<close>

definition calm :: env where
  "calm = \<lparr>current_user = Inr (''op'', ''/home/op''),
           build_config = None,
           new_client = None,
           list_nodes = Inr [''n1'', ''n2''],
           list_services =
             Inr [\<lparr>svc_type = ''LoadBalancer'', ingress = [''7.1.2.3'']\<rparr>,
                  \<lparr>svc_type = ''LoadBalancer'', ingress = [''8.9.9.9'']\<rparr>,
                  \<lparr>svc_type = ''LoadBalancer'', ingress = [''7.5.5.5'']\<rparr>],
           transport = (\<lambda>w argv. ([], None)),
           create_error = None,
           write_error = (\<lambda>i. None),
           remove_error = None\<rparr>"

text \<open>A transport for a sweep of two nodes and two addresses on interface \<open>eth1\<close>:
  both nodes fail with the marker on \<open>7.1.2.3\<close>, the first node fails without the
  marker on \<open>7.5.5.5\<close>, every other command succeeds.\<close>

definition arp_transport :: "world \<Rightarrow> string list \<Rightarrow> string \<times> string option" where
  "arp_transport w argv =
     (if argv = probe_argv ''n1'' ''eth1'' ''7.1.2.3'' ''alice''
         \<or> argv = probe_argv ''n2'' ''eth1'' ''7.1.2.3'' ''alice''
      then (''node | FAILED | rc=2 >>'', Some ''exit status 2'')
      else if argv = probe_argv ''n1'' ''eth1'' ''7.5.5.5'' ''alice''
      then (''node | UNREACHABLE! =>'', Some ''exit status 4'')
      else ([], None))"

text \<open>The same with an answer to the discovery command: a header line of the
  remote-execution tool and two lines of the pipeline.\<close>

definition route_transport :: "world \<Rightarrow> string list \<Rightarrow> string \<times> string option" where
  "route_transport w argv =
     (if argv ! 3 = ''k8s[1]''
      then (''n2 | CHANGED | rc=0 >>'' @ [LF] @ ''eth0'' @ [LF] @ ''eth1'' @ [LF], None)
      else arp_transport w argv)"

definition lively :: env where
  "lively = calm\<lparr>transport := route_transport\<rparr>"

text \<open>Surroundings in which the cluster stops answering after the start of the run.\<close>

definition cut_off :: env where
  "cut_off = lively\<lparr>list_nodes := Inl ''connection refused'',
                    list_services := Inl ''connection refused''\<rparr>"

definition blank :: world where
  "blank = \<lparr>inventory = None, stdin = [], events = []\<rparr>"

section \<open>Properties of the probe orchestrator\<close>

lemma answers_append:
  "answers E i u (ps @ qs) w =
     answers E i u ps w @ answers E i u qs (w\<lparr>events := events w @ answers E i u ps w\<rparr>)"
  by (induction ps arbitrary: w) (auto simp: emit_def split: prod.splits)

lemma length_answers: "length (answers E i u ps w) = length ps"
  by (induction ps arbitrary: w) (auto split: prod.splits)

lemma rows_of_append:
  "length ps = length rs \<Longrightarrow> rows_of (ps @ qs) (rs @ ts) = rows_of ps rs @ rows_of qs ts"
  by (simp add: rows_of_def)

text \<open>The inner loop asks the transport once per address, in order.\<close>

lemma probe_ips_char:
  "probe_ips E node i u ips (w, h) =
     (w\<lparr>events := events w @ answers E i u (map (Pair node) ips) w\<rparr>,
      h @ rows_of (map (Pair node) ips) (answers E i u (map (Pair node) ips) w))"
proof (induction ips arbitrary: w h)
  case Nil
  show ?case by (simp add: rows_of_def)
next
  case (Cons ip ips)
  obtain out err where t: "transport E w (probe_argv node i ip u) = (out, err)"
    by (cases "transport E w (probe_argv node i ip u)")
  show ?case
    by (simp add: probe_def CombinedOutput_def Contains_def t Cons.IH emit_def rows_of_def)
qed

text \<open>The two loops together ask it once per pair of the product, nodes outermost.\<close>

lemma probe_nodes_char:
  "probe_nodes E nodes i ips u (w, h) =
     (w\<lparr>events := events w @ answers E i u (List.product nodes ips) w\<rparr>,
      h @ rows_of (List.product nodes ips) (answers E i u (List.product nodes ips) w))"
proof (induction nodes arbitrary: w h)
  case Nil
  show ?case by (simp add: rows_of_def)
next
  case (Cons n ns)
  show ?case
    by (simp add: probe_ips_char Cons.IH answers_append rows_of_append length_answers)
qed

lemma events_runARP:
  "events (runARPCommandOnAllNodes E nodes i ips u w) =
     events w @ answers E i u (List.product nodes ips) w
       @ [Printed (LF # ''Here is your result:'' @ [LF]),
          Rendered [''Node Name'', ''LoadBalancer IP'']
            (rows_of (List.product nodes ips) (answers E i u (List.product nodes ips) w))]"
  by (simp add: runARPCommandOnAllNodes_def probe_nodes_char emit_def)

lemma answers_all_Ran: "e \<in> set (answers E i u ps w) \<Longrightarrow> is_Ran e"
  by (induction ps arbitrary: w) (auto split: prod.splits)

lemma map_argv_answers:
  "map ran_argv (answers E i u ps w) = map (\<lambda>p. probe_argv (fst p) i (snd p) u) ps"
  by (induction ps arbitrary: w) (auto split: prod.splits)

text \<open>
  Claim C2. For all node lists and all address lists, the run of the orchestrator adds
  to the trace exactly one child process per pair of the product, so
  \<open>length nodes * length ips\<close> of them, in row-major order with the nodes outermost;
  each is asked in the world its predecessors left (one after the other), and its
  command line is built from the interface name, the address and the packet count 1.
\<close>

theorem orchestrator_probe_sequence:
  "events (runARPCommandOnAllNodes E nodes i ips u w)
     = events w @ added w (runARPCommandOnAllNodes E nodes i ips u w)
   \<and> filter is_Ran (added w (runARPCommandOnAllNodes E nodes i ips u w))
     = answers E i u (List.product nodes ips) w
   \<and> length (filter is_Ran (added w (runARPCommandOnAllNodes E nodes i ips u w)))
     = length nodes * length ips
   \<and> map ran_argv (filter is_Ran (added w (runARPCommandOnAllNodes E nodes i ips u w)))
     = map (\<lambda>(node, ip).
              [''ansible'', ''-i'', ''k8s.inventory'', node, ''-u'', u, ''-m'', ''shell'', ''-a'',
               ''arping -q -I '' @ i @ '' '' @ ip @ '' -c 1''])
         (List.product nodes ips)"
proof -
  let ?rs = "answers E i u (List.product nodes ips) w"
  have f: "filter is_Ran ?rs = ?rs"
    by (simp add: answers_all_Ran)
  have a: "added w (runARPCommandOnAllNodes E nodes i ips u w)
      = ?rs @ [Printed (LF # ''Here is your result:'' @ [LF]),
          Rendered [''Node Name'', ''LoadBalancer IP''] (rows_of (List.product nodes ips) ?rs)]"
    by (simp add: added_def events_runARP)
  have m: "map ran_argv ?rs = map (\<lambda>(node, ip).
              [''ansible'', ''-i'', ''k8s.inventory'', node, ''-u'', u, ''-m'', ''shell'', ''-a'',
               ''arping -q -I '' @ i @ '' '' @ ip @ '' -c 1'']) (List.product nodes ips)"
    by (simp add: map_argv_answers probe_argv_def case_prod_beta)
  show ?thesis
    by (simp add: a f m length_answers events_runARP)
qed

text \<open>
  Claim C1. One probe appends its pair to \<open>hostingNodes\<close> exactly when the transport
  returned an error and the combined output contains \<open>FAILED\<close>; in every other case,
  an error without the marker included, it appends nothing. Whatever the answers are,
  the loops go through all pairs: the result holds the rows of the Hosting pairs, and
  the number of probes is the number of pairs.
\<close>

theorem hosting_iff_failure_with_marker:
  "probe E node i u ip (w, h) =
     (emit (Ran (probe_argv node i ip u)
              (fst (transport E w (probe_argv node i ip u)))
              (snd (transport E w (probe_argv node i ip u)))) w,
      if snd (transport E w (probe_argv node i ip u)) \<noteq> None
         \<and> sublist ''FAILED'' (fst (transport E w (probe_argv node i ip u)))
      then h @ [[node, ip]] else h)
   \<and> probe_nodes E nodes i ips u (w, []) =
     (w\<lparr>events := events w @ answers E i u (List.product nodes ips) w\<rparr>,
      rows_of (List.product nodes ips) (answers E i u (List.product nodes ips) w))
   \<and> length (answers E i u (List.product nodes ips) w) = length nodes * length ips"
  by (simp add: probe_def CombinedOutput_def Contains_def probe_nodes_char length_answers
      case_prod_beta)

lemma rows_of_subseq:
  "length rs = length ps \<Longrightarrow> subseq (rows_of ps rs) (map (\<lambda>p. [fst p, snd p]) ps)"
proof -
  assume l: "length rs = length ps"
  have "map (\<lambda>p. [fst p, snd p]) ps = map (\<lambda>(p, r). [fst p, snd p]) (zip ps rs)"
    using l by (induction ps rs rule: list_induct2') auto
  then show ?thesis
    by (simp add: rows_of_def subseq_map)
qed

lemma rows_of_none: "\<forall>r\<in>set rs. \<not> hosting r \<Longrightarrow> rows_of ps rs = []"
  by (auto simp: rows_of_def filter_empty_conv dest: set_zip_rightD)

lemma no_table_in_answers: "filter is_Rendered (answers E i u ps w) = []"
  by (induction ps arbitrary: w) (auto split: prod.splits)

text \<open>
  Claim C8. A run renders one table, the last event of the run, and its rows are the
  pairs with a Hosting answer, in the order of the probes: a subsequence of the pairs
  in row-major order, with nothing removed as a duplicate and nothing sorted. When no
  answer is Hosting the table has no rows.
\<close>

theorem rendered_rows_are_hosting_pairs:
  "filter is_Rendered (added w (runARPCommandOnAllNodes E nodes i ips u w))
     = [Rendered [''Node Name'', ''LoadBalancer IP'']
          (rows_of (List.product nodes ips) (answers E i u (List.product nodes ips) w))]
   \<and> last (events (runARPCommandOnAllNodes E nodes i ips u w))
     = Rendered [''Node Name'', ''LoadBalancer IP'']
          (rows_of (List.product nodes ips) (answers E i u (List.product nodes ips) w))
   \<and> subseq (rows_of (List.product nodes ips) (answers E i u (List.product nodes ips) w))
        (map (\<lambda>p. [fst p, snd p]) (List.product nodes ips))
   \<and> ((\<forall>r \<in> set (answers E i u (List.product nodes ips) w). \<not> hosting r)
        \<longrightarrow> rows_of (List.product nodes ips) (answers E i u (List.product nodes ips) w) = [])"
proof -
  let ?rs = "answers E i u (List.product nodes ips) w"
  have f: "filter is_Rendered ?rs = []"
    by (rule no_table_in_answers)
  show ?thesis
    by (simp add: added_def events_runARP f rows_of_subseq length_answers rows_of_none)
qed

text \<open>
  The example of the specification: with Hosting for (n1, 7.1.2.3) and (n2, 7.1.2.3)
  and no other, the rows are these two pairs in this order; a node listed twice gives
  its row twice; and with no Hosting answer the table is empty.
\<close>

theorem rendered_rows_witness:
  "rows_of (List.product [''n1'', ''n2''] [''7.1.2.3'', ''7.5.5.5''])
     (answers (calm\<lparr>transport := arp_transport\<rparr>) ''eth1'' ''alice''
        (List.product [''n1'', ''n2''] [''7.1.2.3'', ''7.5.5.5'']) blank)
     = [[''n1'', ''7.1.2.3''], [''n2'', ''7.1.2.3'']]
   \<and> last (events (runARPCommandOnAllNodes (calm\<lparr>transport := arp_transport\<rparr>)
        [''n1'', ''n2''] ''eth1'' [''7.1.2.3'', ''7.5.5.5''] ''alice'' blank))
     = Rendered [''Node Name'', ''LoadBalancer IP'']
         [[''n1'', ''7.1.2.3''], [''n2'', ''7.1.2.3'']]
   \<and> last (events (runARPCommandOnAllNodes (calm\<lparr>transport := arp_transport\<rparr>)
        [''n1'', ''n1''] ''eth1'' [''7.1.2.3''] ''alice'' blank))
     = Rendered [''Node Name'', ''LoadBalancer IP'']
         [[''n1'', ''7.1.2.3''], [''n1'', ''7.1.2.3'']]
   \<and> last (events (runARPCommandOnAllNodes calm
        [''n1'', ''n2''] ''eth1'' [''7.1.2.3'', ''7.5.5.5''] ''alice'' blank))
     = Rendered [''Node Name'', ''LoadBalancer IP''] []"
proof -
  have r1: "rows_of (List.product [''n1'', ''n2''] [''7.1.2.3'', ''7.5.5.5''])
     (answers (calm\<lparr>transport := arp_transport\<rparr>) ''eth1'' ''alice''
        (List.product [''n1'', ''n2''] [''7.1.2.3'', ''7.5.5.5'']) blank)
     = [[''n1'', ''7.1.2.3''], [''n2'', ''7.1.2.3'']]"
    by (simp add: rows_of_def arp_transport_def probe_argv_def calm_def sublist_Cons_right)
  have r2: "rows_of (List.product [''n1'', ''n1''] [''7.1.2.3''])
     (answers (calm\<lparr>transport := arp_transport\<rparr>) ''eth1'' ''alice''
        (List.product [''n1'', ''n1''] [''7.1.2.3'']) blank)
     = [[''n1'', ''7.1.2.3''], [''n1'', ''7.1.2.3'']]"
    by (simp add: rows_of_def arp_transport_def probe_argv_def calm_def sublist_Cons_right)
  have r3: "\<forall>r \<in> set (answers calm ''eth1'' ''alice''
        (List.product [''n1'', ''n2''] [''7.1.2.3'', ''7.5.5.5'']) blank). \<not> hosting r"
    by (simp add: calm_def)
  show ?thesis
    using rendered_rows_are_hosting_pairs [of blank "calm\<lparr>transport := arp_transport\<rparr>"
        "[''n1'', ''n2'']" "''eth1''" "[''7.1.2.3'', ''7.5.5.5'']" "''alice''"]
      rendered_rows_are_hosting_pairs [of blank "calm\<lparr>transport := arp_transport\<rparr>"
        "[''n1'', ''n1'']" "''eth1''" "[''7.1.2.3'']" "''alice''"]
      rendered_rows_are_hosting_pairs [of blank calm
        "[''n1'', ''n2'']" "''eth1''" "[''7.1.2.3'', ''7.5.5.5'']" "''alice''"]
      r1 r2 r3
    by simp
qed

section \<open>Properties of the candidate addresses\<close>

lemma collect_ingress_eq:
  "collect_ingress ips acc = acc @ filter (\<lambda>ip. prefix ''7'' ip) ips"
  by (induction ips arbitrary: acc) (simp_all add: HasPrefix_def)

lemma collect_services_eq:
  "collect_services svcs acc =
     acc @ filter (\<lambda>ip. prefix ''7'' ip)
             (concat (map ingress (filter (\<lambda>s. svc_type s = ''LoadBalancer'') svcs)))"
  by (induction svcs arbitrary: acc) (simp_all add: collect_ingress_eq)

text \<open>
  Claim C7. When the service listing succeeds, the candidates are the ingress addresses
  of the services of type \<open>LoadBalancer\<close> that begin with \<open>7\<close>, in the order of the
  listing (services first, then the ingress entries of each), with nothing removed as
  a duplicate; the request is the only thing added to the trace.
\<close>

theorem candidates_are_filtered_ingress:
  "list_services E = Inr items \<Longrightarrow>
   getLoadBalancerIPsStartingWithSeven v E w =
     (filter (\<lambda>ip. prefix ''7'' ip)
        (concat (map ingress (filter (\<lambda>s. svc_type s = ''LoadBalancer'') items))),
      emit ServicesListed w)"
  by (simp add: getLoadBalancerIPsStartingWithSeven_def collect_services_eq)

text \<open>
  The example of the specification, once with one service per address and once with
  all addresses on one service next to a service of another type: from 7.1.2.3,
  8.9.9.9, 7.5.5.5 exactly 7.1.2.3 and 7.5.5.5 are kept, in this order.
\<close>

theorem candidates_witness:
  "list_services calm =
     Inr [\<lparr>svc_type = ''LoadBalancer'', ingress = [''7.1.2.3'']\<rparr>,
          \<lparr>svc_type = ''LoadBalancer'', ingress = [''8.9.9.9'']\<rparr>,
          \<lparr>svc_type = ''LoadBalancer'', ingress = [''7.5.5.5'']\<rparr>]
   \<and> getLoadBalancerIPsStartingWithSeven Plain calm blank
      = ([''7.1.2.3'', ''7.5.5.5''], emit ServicesListed blank)
   \<and> getLoadBalancerIPsStartingWithSeven Coloured
        (calm\<lparr>list_services :=
           Inr [\<lparr>svc_type = ''ClusterIP'', ingress = [''7.0.0.1'']\<rparr>,
                \<lparr>svc_type = ''LoadBalancer'',
                 ingress = [''7.1.2.3'', ''8.9.9.9'', ''7.5.5.5'', ''7.1.2.3'', ''17.0.0.1'']\<rparr>]\<rparr>)
        blank
      = ([''7.1.2.3'', ''7.5.5.5'', ''7.1.2.3''], emit ServicesListed blank)"
proof -
  have a: "list_services calm =
     Inr [\<lparr>svc_type = ''LoadBalancer'', ingress = [''7.1.2.3'']\<rparr>,
          \<lparr>svc_type = ''LoadBalancer'', ingress = [''8.9.9.9'']\<rparr>,
          \<lparr>svc_type = ''LoadBalancer'', ingress = [''7.5.5.5'']\<rparr>]"
    by (simp add: calm_def)
  have b: "list_services (calm\<lparr>list_services :=
           Inr [\<lparr>svc_type = ''ClusterIP'', ingress = [''7.0.0.1'']\<rparr>,
                \<lparr>svc_type = ''LoadBalancer'',
                 ingress = [''7.1.2.3'', ''8.9.9.9'', ''7.5.5.5'', ''7.1.2.3'', ''17.0.0.1'']\<rparr>]\<rparr>)
     = Inr [\<lparr>svc_type = ''ClusterIP'', ingress = [''7.0.0.1'']\<rparr>,
                \<lparr>svc_type = ''LoadBalancer'',
                 ingress = [''7.1.2.3'', ''8.9.9.9'', ''7.5.5.5'', ''7.1.2.3'', ''17.0.0.1'']\<rparr>]"
    by simp
  show ?thesis
    using candidates_are_filtered_ingress [OF a, of Plain blank]
      candidates_are_filtered_ingress [OF b, of Coloured blank] a
    by simp
qed

section \<open>Properties of the inventory file\<close>

lemma write_nodes_ok:
  "write_nodes E i nodes u w = (None, w') \<Longrightarrow>
   w' = w\<lparr>inventory := Some (content (inventory w)
          @ concat (map (\<lambda>node. node @ '' ansible_user='' @ u @ [LF]) nodes))\<rparr>
   \<or> (nodes = [] \<and> w' = w)"
proof (induction nodes arbitrary: i w)
  case Nil
  then show ?case by simp
next
  case (Cons n ns)
  from Cons.prems have we: "write_error E i = None"
    by (auto simp: WriteString_def split: option.splits prod.splits)
  let ?w1 = "w\<lparr>inventory := Some (content (inventory w) @ n @ '' ansible_user='' @ u @ [LF])\<rparr>"
  from Cons.prems we have r: "write_nodes E (Suc i) ns u ?w1 = (None, w')"
    by (simp add: WriteString_def)
  from Cons.IH [OF r] show ?case
    by (auto simp: content_def)
qed

lemma write_nodes_succeeds:
  "\<forall>j<length nodes. write_error E (i + j) = None \<Longrightarrow> fst (write_nodes E i nodes u w) = None"
proof (induction nodes arbitrary: i w)
  case Nil
  show ?case by simp
next
  case (Cons n ns)
  from Cons.prems have we: "write_error E i = None" by force
  have "\<forall>j<length ns. write_error E (Suc i + j) = None"
    using Cons.prems by force
  from Cons.IH [OF this] we show ?case
    by (simp add: WriteString_def)
qed

text \<open>
  Claim C5. A creation that returns no error leaves as the file's content the line
  \<open>[k8s]\<close> followed by one line \<open><node> ansible_user=<username>\<close> per node, in the
  order of the nodes, whatever the file held before. Creation returns no error whenever
  \<open>os.Create\<close> and the writes do not fail.
\<close>

theorem inventory_file_content:
  "(createInventoryFile E nodes ansibleUsername w = (None, w') \<longrightarrow>
      inventory w' = Some (''[k8s]'' @ [LF]
        @ concat (map (\<lambda>node. node @ '' ansible_user='' @ ansibleUsername @ [LF]) nodes)))
   \<and> (create_error E = None \<and> (\<forall>i\<le>length nodes. write_error E i = None) \<longrightarrow>
        fst (createInventoryFile E nodes ansibleUsername w) = None)"
proof (intro conjI impI)
  assume c: "createInventoryFile E nodes ansibleUsername w = (None, w')"
  then have ce: "create_error E = None" and we: "write_error E 0 = None"
    by (auto simp: createInventoryFile_def WriteString_def Let_def split: option.splits prod.splits)
  from c ce we have "write_nodes E 1 nodes ansibleUsername
      ((emit CreateCalled w)\<lparr>inventory := Some (''[k8s]'' @ [LF])\<rparr>) = (None, w')"
    by (simp add: createInventoryFile_def WriteString_def Let_def content_def)
  from write_nodes_ok [OF this]
  show "inventory w' = Some (''[k8s]'' @ [LF]
        @ concat (map (\<lambda>node. node @ '' ansible_user='' @ ansibleUsername @ [LF]) nodes))"
    by (auto simp: content_def)
next
  assume a: "create_error E = None \<and> (\<forall>i\<le>length nodes. write_error E i = None)"
  then have "\<forall>j<length nodes. write_error E (1 + j) = None" by simp
  from write_nodes_succeeds [OF this] a
  show "fst (createInventoryFile E nodes ansibleUsername w) = None"
    by (simp add: createInventoryFile_def WriteString_def Let_def)
qed

text \<open>
  The example of the specification: nodes n1 and n2 and user alice, over a file left by
  an earlier run.
\<close>

theorem inventory_file_content_witness:
  "createInventoryFile calm [''n1'', ''n2''] ''alice'' (blank\<lparr>inventory := Some ''stale''\<rparr>)
     = (None, \<lparr>inventory = Some (''[k8s]'' @ [LF] @ ''n1 ansible_user=alice'' @ [LF]
                                  @ ''n2 ansible_user=alice'' @ [LF]),
               stdin = [], events = [CreateCalled]\<rparr>)
   \<and> create_error calm = None \<and> write_error calm 0 = None
   \<and> fst (createInventoryFile calm [''n1'', ''n2''] ''alice'' blank) = None"
proof -
  have c: "createInventoryFile calm [''n1'', ''n2''] ''alice'' (blank\<lparr>inventory := Some ''stale''\<rparr>)
     = (None, \<lparr>inventory = Some (''[k8s]'' @ [LF] @ ''n1 ansible_user=alice'' @ [LF]
                                  @ ''n2 ansible_user=alice'' @ [LF]),
               stdin = [], events = [CreateCalled]\<rparr>)"
    by (simp add: createInventoryFile_def WriteString_def calm_def blank_def emit_def content_def)
  show ?thesis
    using inventory_file_content [of calm "[''n1'', ''n2'']" "''alice''"
        "blank\<lparr>inventory := Some ''stale''\<rparr>"
        "\<lparr>inventory = Some (''[k8s]'' @ [LF] @ ''n1 ansible_user=alice'' @ [LF]
                                  @ ''n2 ansible_user=alice'' @ [LF]),
               stdin = [], events = [CreateCalled]\<rparr>"]
      inventory_file_content [of calm "[''n1'', ''n2'']" "''alice''" blank] c
    by (simp add: calm_def)
qed



end
